theory Spec2Isabelle
  imports Main "HOL-Library.AList"
begin

section \<open>Python values\<close>

text \<open>
  A Python \<open>str\<close> is a sequence of Unicode code points; slicing (\<open>s[:50]\<close>) and \<open>len\<close>
  count code points.  The literals of \<open>main.py\<close> contain code points beyond Latin-1
  (U+2705, U+274C, U+26A0, U+FE0F), so a string is a list of code points and not a list
  of 8-bit characters.  \<open>lit\<close> embeds an ASCII literal.
\<close>

type_synonym str = "nat list"

definition lit :: "string \<Rightarrow> str" where
  "lit cs = map of_char cs"

text \<open>
  The values a document holds.  \<open>serialize_doc\<close> distinguishes three kinds of value:
  instances of \<open>bson.ObjectId\<close>, values that have an attribute \<open>isoformat\<close>
  (\<open>datetime\<close>, \<open>date\<close>, \<open>time\<close>), and everything else.  The classes \<open>ObjectId\<close> and
  \<open>datetime\<close> are not part of the repository, so their carriers are type parameters
  \<open>'o\<close> and \<open>'t\<close>, and \<open>str(oid)\<close> and \<open>t.isoformat()\<close> are parameters of the functions
  that call them.  \<open>Other\<close> carries every remaining scalar (floats, bytes, ...): values
  that are not an \<open>ObjectId\<close> and have no \<open>isoformat\<close>.
\<close>

datatype ('o, 't, 'x) pyval =
    PyNone
  | PyBool bool
  | PyInt int
  | PyStr str
  | ObjectId 'o
  | Datetime 't
  | Other 'x
  | PyList "('o, 't, 'x) pyval list"
  | PyDict "(str \<times> ('o, 't, 'x) pyval) list"

text \<open>
  A \<open>dict\<close> is its list of items in insertion order.  Python keeps the keys of a dict
  distinct; \<open>AList.update\<close> is \<open>d[k] = v\<close> (the value is replaced in place when the key is
  there, the item is appended otherwise), \<open>AList.delete\<close> removes a key, \<open>map_of\<close> is the
  lookup (\<open>None\<close> where \<open>d[k]\<close> raises \<open>KeyError\<close>).
\<close>

type_synonym ('o, 't, 'x) dict = "(str \<times> ('o, 't, 'x) pyval) list"

definition is_dict :: "('o, 't, 'x) dict \<Rightarrow> bool" where
  "is_dict d = distinct (map fst d)"

definition hasattr_isoformat :: "('o, 't, 'x) pyval \<Rightarrow> bool" where
  "hasattr_isoformat v = (case v of Datetime t \<Rightarrow> True | _ \<Rightarrow> False)"

text \<open>The test \<open>"_id" in d and isinstance(d["_id"], ObjectId)\<close>.\<close>

definition has_object_id :: "('o, 't, 'x) dict \<Rightarrow> bool" where
  "has_object_id d = (case map_of d (lit ''_id'') of Some (ObjectId oid) \<Rightarrow> True | _ \<Rightarrow> False)"

section \<open>The document normalizer\<close>

text \<open>
  One turn of the loop \<open>for k, v in list(out.items())\<close>:
  \<open>if hasattr(v, "isoformat"): out[k] = v.isoformat()\<close>.
\<close>

definition convert_item ::
  "('t \<Rightarrow> str) \<Rightarrow> str \<times> ('o, 't, 'x) pyval \<Rightarrow> ('o, 't, 'x) dict \<Rightarrow> ('o, 't, 'x) dict" where
  "convert_item isoformat kv out =
     (case kv of
        (k, Datetime t) \<Rightarrow> AList.update k (PyStr (isoformat t)) out
      | _ \<Rightarrow> out)"

text \<open>
  \<open>serialize_doc\<close>: \<open>out = {**doc}\<close>; when \<open>"_id" in out\<close> and the value is an \<open>ObjectId\<close>,
  \<open>out["id"] = str(out.pop("_id"))\<close> (the pop runs first, then the assignment); then the
  loop runs over a snapshot of the items of \<open>out\<close>.
\<close>

definition serialize_doc ::
  "('o \<Rightarrow> str) \<Rightarrow> ('t \<Rightarrow> str) \<Rightarrow> ('o, 't, 'x) dict \<Rightarrow> ('o, 't, 'x) dict" where
  "serialize_doc str_oid isoformat doc =
     (let out = doc;
          out = (case map_of out (lit ''_id'') of
                   Some (ObjectId oid) \<Rightarrow>
                     AList.update (lit ''id'') (PyStr (str_oid oid)) (AList.delete (lit ''_id'') out)
                 | _ \<Rightarrow> out)
      in fold (convert_item isoformat) out out)"

subsection \<open>The normalizer on a store of dict objects\<close>

text \<open>
  Whether \<open>serialize_doc\<close> mutates its argument is a question about object identity, so
  the same code is also modelled over an explicit store: a heap is the list of the dict
  objects allocated so far, a reference is an index into it.  \<open>{**doc}\<close> allocates a new
  dict object holding the items of \<open>doc\<close>; \<open>out.pop\<close> and \<open>out[k] = v\<close> write the object
  that \<open>out\<close> refers to.  Values nested inside a document (lists, dicts) are shared by the
  shallow copy; the function never writes them, so they stay plain values here.
  A reference held by a Python program always points at an object, so the properties
  below are stated for \<open>doc < length h\<close>.
\<close>

type_synonym ref = nat

type_synonym ('o, 't, 'x) heap = "('o, 't, 'x) dict list"

definition new_dict :: "('o, 't, 'x) dict \<Rightarrow> ('o, 't, 'x) heap \<Rightarrow> ('o, 't, 'x) heap \<times> ref" where
  "new_dict d h = (h @ [d], length h)"

definition heap_setitem ::
  "ref \<Rightarrow> str \<Rightarrow> ('o, 't, 'x) pyval \<Rightarrow> ('o, 't, 'x) heap \<Rightarrow> ('o, 't, 'x) heap" where
  "heap_setitem r k v h = h[r := AList.update k v (h ! r)]"

definition heap_pop :: "ref \<Rightarrow> str \<Rightarrow> ('o, 't, 'x) heap \<Rightarrow> ('o, 't, 'x) heap" where
  "heap_pop r k h = h[r := AList.delete k (h ! r)]"

definition heap_convert_item ::
  "('t \<Rightarrow> str) \<Rightarrow> ref \<Rightarrow> str \<times> ('o, 't, 'x) pyval \<Rightarrow> ('o, 't, 'x) heap \<Rightarrow> ('o, 't, 'x) heap" where
  "heap_convert_item isoformat out kv h =
     (case kv of
        (k, Datetime t) \<Rightarrow> heap_setitem out k (PyStr (isoformat t)) h
      | _ \<Rightarrow> h)"

definition serialize_doc_heap ::
  "('o \<Rightarrow> str) \<Rightarrow> ('t \<Rightarrow> str) \<Rightarrow> ref \<Rightarrow> ('o, 't, 'x) heap \<Rightarrow> ('o, 't, 'x) heap \<times> ref" where
  "serialize_doc_heap str_oid isoformat doc h =
     (case new_dict (h ! doc) h of
        (h, out) \<Rightarrow>
          (let h = (case map_of (h ! out) (lit ''_id'') of
                      Some (ObjectId oid) \<Rightarrow>
                        heap_setitem out (lit ''id'') (PyStr (str_oid oid))
                          (heap_pop out (lit ''_id'') h)
                    | _ \<Rightarrow> h)
           in (fold (heap_convert_item isoformat out) (h ! out) h, out)))"

section \<open>Route handlers\<close>

text \<open>
  An exception \<open>e\<close> is kept as its message \<open>str(e)\<close>, the only thing the handlers read.
  A handler either returns its value or raises \<open>HTTPException(status_code, detail)\<close>; the
  framework answers a normal return with status 200 and an \<open>HTTPException\<close> with its
  status code.
\<close>

datatype exn = Exception str

primrec py_str :: "exn \<Rightarrow> str" where
  "py_str (Exception msg) = msg"

datatype http_exception = HTTPException (status_code: nat) (detail: str)

definition http_status :: "http_exception + 'a \<Rightarrow> nat" where
  "http_status r = (case r of Inl e \<Rightarrow> status_code e | Inr _ \<Rightarrow> 200)"

subsection \<open>GET /test\<close>

text \<open>
  The module \<open>database\<close> is not among the sources.  Its global \<open>db\<close> is \<open>None\<close> or a
  database object, of which \<open>test_database\<close> uses two things: \<open>getattr(db, "name", None)\<close>
  (a string, or \<open>None\<close> when the attribute is missing or \<open>None\<close>; the attribute access may
  raise) and \<open>db.list_collection_names()\<close> (a list of names, or a fault).
  \<open>os.getenv\<close> maps a variable's name to its value, \<open>None\<close> when the variable is not set.
\<close>

record db_handle =
  db_name :: "exn + str option"
  db_list_collection_names :: "exn + str list"

record test_response =
  backend :: str
  database :: str
  database_url :: "str option"
  database_name :: "str option"
  connection_status :: str
  collections :: "str list"

definition CHECK_MARK :: nat where
  "CHECK_MARK = 0x2705"

definition CROSS_MARK :: nat where
  "CROSS_MARK = 0x274C"

definition WARNING_SIGN :: str where
  "WARNING_SIGN = [0x26A0, 0xFE0F]"

definition SET :: str where
  "SET = CHECK_MARK # lit '' Set''"

definition NOT_SET :: str where
  "NOT_SET = CROSS_MARK # lit '' Not Set''"

text \<open>Truth value of \<open>os.getenv(...)\<close> or of an attribute: \<open>None\<close> and \<open>""\<close> are false.\<close>

definition truthy :: "str option \<Rightarrow> bool" where
  "truthy v = (case v of None \<Rightarrow> False | Some s \<Rightarrow> s \<noteq> [])"

text \<open>
  The inner \<open>try\<close>: list the collections; a fault is written into \<open>response["database"]\<close>
  with the message cut to its first 50 characters.
\<close>

definition list_collections_check :: "db_handle \<Rightarrow> test_response \<Rightarrow> test_response" where
  "list_collections_check d response =
     (case db_list_collection_names d of
        Inr cols \<Rightarrow>
          (let response = response\<lparr>collections := take 10 cols\<rparr>
           in response\<lparr>database := CHECK_MARK # lit '' Connected & Working''\<rparr>)
      | Inl e \<Rightarrow>
          response\<lparr>database := WARNING_SIGN @ lit ''  Connected but Error: '' @ take 50 (py_str e)\<rparr>)"

text \<open>
  The outer \<open>try\<close>.  The assignments made before a raise stay in \<open>response\<close>; the only
  statement of the block that can raise outside the inner \<open>try\<close> is the attribute access,
  and the outer \<open>except\<close> then overwrites \<open>response["database"]\<close>.
\<close>

definition connection_check ::
  "db_handle option \<Rightarrow> (str \<Rightarrow> str option) \<Rightarrow> test_response \<Rightarrow> test_response" where
  "connection_check db getenv response =
     (case db of
        Some d \<Rightarrow>
          (let response = response\<lparr>database := CHECK_MARK # lit '' Available''\<rparr>;
               response = response\<lparr>database_url :=
                 Some (if truthy (getenv (lit ''DATABASE_URL'')) then SET else NOT_SET)\<rparr>
           in case db_name d of
                Inr name \<Rightarrow>
                  (let response = response\<lparr>database_name :=
                         Some (case name of
                                 Some s \<Rightarrow> if s \<noteq> [] then s else CHECK_MARK # lit '' Connected''
                               | None \<Rightarrow> CHECK_MARK # lit '' Connected'')\<rparr>;
                       response = response\<lparr>connection_status := lit ''Connected''\<rparr>
                   in list_collections_check d response)
              | Inl e \<Rightarrow>
                  response\<lparr>database := CROSS_MARK # lit '' Error: '' @ take 50 (py_str e)\<rparr>)
      | None \<Rightarrow>
          response\<lparr>database := WARNING_SIGN @ lit ''  Available but not initialized''\<rparr>)"

definition test_database ::
  "db_handle option \<Rightarrow> (str \<Rightarrow> str option) \<Rightarrow> http_exception + test_response" where
  "test_database db getenv =
     (let response = \<lparr>backend = CHECK_MARK # lit '' Running'',
                       database = CROSS_MARK # lit '' Not Available'',
                       database_url = None,
                       database_name = None,
                       connection_status = lit ''Not Connected'',
                       collections = []\<rparr>;
          response = connection_check db getenv response;
          response = response\<lparr>database_url :=
            Some (if truthy (getenv (lit ''DATABASE_URL'')) then SET else NOT_SET)\<rparr>;
          response = response\<lparr>database_name :=
            Some (if truthy (getenv (lit ''DATABASE_NAME'')) then SET else NOT_SET)\<rparr>
      in Inr response)"

subsection \<open>POST /api/appointments\<close>

text \<open>
  \<open>create_document\<close> (module \<open>database\<close>) and the schema \<open>Appointment\<close> (module \<open>schemas\<close>)
  are not among the sources: the appointment is a value of a type parameter and
  \<open>create_document\<close> a parameter that returns the new identifier as a string or a fault.
\<close>

record AppointmentResponse =
  id_field :: str
  message :: str

definition create_appointment ::
  "(str \<Rightarrow> 'appt \<Rightarrow> exn + str) \<Rightarrow> 'appt \<Rightarrow> http_exception + AppointmentResponse" where
  "create_appointment create_document appt =
     (case create_document (lit ''appointment'') appt of
        Inr inserted_id \<Rightarrow>
          Inr \<lparr>id_field = inserted_id, message = lit ''Appointment request received''\<rparr>
      | Inl e \<Rightarrow> Inl (HTTPException 500 (py_str e)))"

subsection \<open>GET /api/gallery\<close>

definition DEFAULT_GALLERY :: "('o, 't, 'x) dict list" where
  "DEFAULT_GALLERY =
     [[(lit ''url'', PyStr (lit ''https://images.unsplash.com/photo-1504194104404-433180773017?q=80&w=1200&auto=format&fit=crop'')),
       (lit ''title'', PyStr (lit ''Coastal Cliffs'')),
       (lit ''category'', PyStr (lit ''Nature''))],
      [(lit ''url'', PyStr (lit ''https://images.unsplash.com/photo-1501785888041-af3ef285b470?q=80&w=1200&auto=format&fit=crop'')),
       (lit ''title'', PyStr (lit ''Mountain Range'')),
       (lit ''category'', PyStr (lit ''Landscapes''))],
      [(lit ''url'', PyStr (lit ''https://images.unsplash.com/photo-1500530855697-b586d89ba3ee?q=80&w=1200&auto=format&fit=crop'')),
       (lit ''title'', PyStr (lit ''City From Above'')),
       (lit ''category'', PyStr (lit ''Real Estate''))],
      [(lit ''url'', PyStr (lit ''https://images.unsplash.com/photo-1477959858617-67f85cf4f1df?q=80&w=1200&auto=format&fit=crop'')),
       (lit ''title'', PyStr (lit ''Golden Fields'')),
       (lit ''category'', PyStr (lit ''Agriculture''))]]"

record ('o, 't, 'x) gallery_response =
  items :: "('o, 't, 'x) dict list"
  count :: nat
  source :: str

text \<open>
  \<open>get_documents\<close> (module \<open>database\<close>) is a parameter: the documents of the named
  collection, or a fault.  Both the empty result and the \<open>except\<close> branch return the
  default list itself.
\<close>

definition get_gallery ::
  "('o \<Rightarrow> str) \<Rightarrow> ('t \<Rightarrow> str) \<Rightarrow> (str \<Rightarrow> exn + ('o, 't, 'x) dict list) \<Rightarrow>
   http_exception + ('o, 't, 'x) gallery_response" where
  "get_gallery str_oid isoformat get_documents =
     (case get_documents (lit ''galleryimage'') of
        Inr stored \<Rightarrow>
          (let stored_serialized = map (serialize_doc str_oid isoformat) stored
           in if stored_serialized = []
              then Inr \<lparr>items = DEFAULT_GALLERY, count = length (DEFAULT_GALLERY :: ('o, 't, 'x) dict list),
                        source = lit ''default''\<rparr>
              else Inr \<lparr>items = stored_serialized, count = length stored_serialized,
                        source = lit ''database''\<rparr>)
      | Inl e \<Rightarrow>
          Inr \<lparr>items = DEFAULT_GALLERY, count = length (DEFAULT_GALLERY :: ('o, 't, 'x) dict list),
                source = lit ''default''\<rparr>)"

section \<open>Properties of the normalizer\<close>

subsection \<open>The conversion loop\<close>

lemma lit_id_neq: "lit ''_id'' \<noteq> lit ''id''"
  by (simp add: lit_def)

lemma fold_convert_unchanged:
  "\<forall>(k, v) \<in> set its. \<not> hasattr_isoformat v \<Longrightarrow> fold (convert_item isoformat) its d = d"
proof (induction its arbitrary: d)
  case Nil
  show ?case by simp
next
  case (Cons kv its)
  obtain k v where kv: "kv = (k, v)" by (cases kv)
  from Cons.prems kv have "\<not> hasattr_isoformat v" by simp
  then have "convert_item isoformat kv d = d"
    by (cases v) (simp_all add: kv convert_item_def hasattr_isoformat_def)
  with Cons show ?case by simp
qed

lemma convert_item_lookup:
  "map_of (convert_item isoformat (k, v) d) k' =
     (if k' = k \<and> hasattr_isoformat v then (case v of Datetime t \<Rightarrow> Some (PyStr (isoformat t)) | _ \<Rightarrow> None)
      else map_of d k')"
  by (cases v) (simp_all add: convert_item_def hasattr_isoformat_def update_conv')

lemma convert_item_keys:
  "k \<in> fst ` set d \<Longrightarrow> map fst (convert_item isoformat (k, v) d) = map fst d"
  by (cases v) (simp_all add: convert_item_def update_keys)

lemma fold_convert_keys:
  "fst ` set its \<subseteq> fst ` set d \<Longrightarrow> map fst (fold (convert_item isoformat) its d) = map fst d"
proof (induction its arbitrary: d)
  case Nil
  show ?case by simp
next
  case (Cons kv its)
  obtain k v where kv: "kv = (k, v)" by (cases kv)
  from Cons.prems kv have k: "k \<in> fst ` set d" by simp
  have keys: "map fst (convert_item isoformat kv d) = map fst d"
    unfolding kv by (rule convert_item_keys [OF k])
  then have "fst ` set (convert_item isoformat kv d) = fst ` set d"
    by (metis set_map)
  with Cons.prems have "fst ` set its \<subseteq> fst ` set (convert_item isoformat kv d)" by simp
  from Cons.IH [OF this] keys show ?case by simp
qed

lemma fold_convert_lookup:
  "distinct (map fst its) \<Longrightarrow>
   map_of (fold (convert_item isoformat) its d) k =
     (case map_of its k of Some (Datetime t) \<Rightarrow> Some (PyStr (isoformat t)) | _ \<Rightarrow> map_of d k)"
proof (induction its arbitrary: d)
  case Nil
  show ?case by simp
next
  case (Cons kv its)
  obtain k' v where kv: "kv = (k', v)" by (cases kv)
  from Cons.prems kv have notin: "k' \<notin> fst ` set its" and dist: "distinct (map fst its)"
    by simp_all
  have step: "map_of (fold (convert_item isoformat) its (convert_item isoformat (k', v) d)) k =
     (case map_of its k of Some (Datetime t) \<Rightarrow> Some (PyStr (isoformat t))
      | _ \<Rightarrow> map_of (convert_item isoformat (k', v) d) k)"
    by (rule Cons.IH [OF dist])
  show ?case
  proof (cases "k = k'")
    case True
    with notin have none: "map_of its k = None" by (simp add: map_of_eq_None_iff)
    from step none have "map_of (fold (convert_item isoformat) its (convert_item isoformat (k', v) d)) k =
        map_of (convert_item isoformat (k', v) d) k"
      by simp
    then show ?thesis unfolding kv True
      by (cases v) (simp_all add: convert_item_lookup hasattr_isoformat_def)
  next
    case False
    then have same: "map_of (convert_item isoformat (k', v) d) k = map_of d k"
      by (simp add: convert_item_lookup)
    show ?thesis unfolding kv using False
      by (simp add: step [unfolded same])
  qed
qed

subsection \<open>The two paths through the identifier step\<close>

lemma serialize_doc_with_oid:
  "map_of doc (lit ''_id'') = Some (ObjectId oid) \<Longrightarrow>
   serialize_doc str_oid isoformat doc =
     fold (convert_item isoformat)
       (AList.update (lit ''id'') (PyStr (str_oid oid)) (AList.delete (lit ''_id'') doc))
       (AList.update (lit ''id'') (PyStr (str_oid oid)) (AList.delete (lit ''_id'') doc))"
  by (simp add: serialize_doc_def Let_def)

lemma serialize_doc_without_oid:
  "\<not> has_object_id doc \<Longrightarrow>
   serialize_doc str_oid isoformat doc = fold (convert_item isoformat) doc doc"
  by (simp add: serialize_doc_def has_object_id_def Let_def split: option.splits pyval.splits)

lemma has_object_id_iff:
  "has_object_id doc \<longleftrightarrow> (\<exists>oid. map_of doc (lit ''_id'') = Some (ObjectId oid))"
  by (simp add: has_object_id_def split: option.splits pyval.splits)

lemma is_dict_reinsert:
  "is_dict doc \<Longrightarrow> is_dict (AList.update k v (AList.delete k' doc))"
  by (simp add: is_dict_def distinct_update distinct_delete)

subsection \<open>The identifier field\<close>

text \<open>
  C1, as stated, at a document whose \<open>"_id"\<close> is not an \<open>ObjectId\<close>: the document
  \<open>{"_id": "order-17"}\<close> contains the key \<open>"_id"\<close>, and its normal form has no field
  \<open>"id"\<close> and still has the field \<open>"_id"\<close>, since the \<open>isinstance\<close> test fails.
\<close>

theorem serialize_doc_identifier_counterexample:
  "map_of [(lit ''_id'', PyStr (lit ''order-17'') :: (str, str, unit) pyval)] (lit ''_id'') \<noteq> None
   \<and> map_of (serialize_doc id id [(lit ''_id'', PyStr (lit ''order-17'') :: (str, str, unit) pyval)]) (lit ''id'') = None
   \<and> map_of (serialize_doc id id [(lit ''_id'', PyStr (lit ''order-17'') :: (str, str, unit) pyval)]) (lit ''_id'')
       = Some (PyStr (lit ''order-17''))"
  by (simp add: serialize_doc_def convert_item_def lit_def Let_def)

text \<open>
  C1, amended: for every document (a dict: its keys are distinct) whose field \<open>"_id"\<close>
  holds an \<open>ObjectId\<close>, \<open>serialize_doc\<close> returns a mapping whose field \<open>"id"\<close> is the string
  \<open>str(oid)\<close> and which has no key \<open>"_id"\<close>.
\<close>

theorem serialize_doc_identifier:
  assumes "is_dict doc" and "map_of doc (lit ''_id'') = Some (ObjectId oid)"
  shows "map_of (serialize_doc str_oid isoformat doc) (lit ''id'') = Some (PyStr (str_oid oid))
       \<and> lit ''_id'' \<notin> fst ` set (serialize_doc str_oid isoformat doc)"
proof -
  let ?out = "AList.update (lit ''id'') (PyStr (str_oid oid)) (AList.delete (lit ''_id'') doc)"
  have eq: "serialize_doc str_oid isoformat doc = fold (convert_item isoformat) ?out ?out"
    by (rule serialize_doc_with_oid [OF assms(2)])
  have dist: "distinct (map fst ?out)"
    using is_dict_reinsert [OF assms(1)] by (simp add: is_dict_def)
  have "map_of ?out (lit ''id'') = Some (PyStr (str_oid oid))"
    by (simp add: update_conv')
  then have id: "map_of (fold (convert_item isoformat) ?out ?out) (lit ''id'') = Some (PyStr (str_oid oid))"
    by (simp add: fold_convert_lookup [OF dist])
  have "map fst (fold (convert_item isoformat) ?out ?out) = map fst ?out"
    by (rule fold_convert_keys) simp
  then have "fst ` set (fold (convert_item isoformat) ?out ?out) = fst ` set ?out"
    by (metis set_map)
  moreover have "lit ''_id'' \<notin> fst ` set ?out"
    using lit_id_neq by (simp add: dom_update delete_notin_dom)
  ultimately show ?thesis using id by (simp add: eq)
qed

text \<open>
  C1, amended, at the document \<open>{"_id": ObjectId("507f1f77bcf86cd799439011"), "name": "Ann"}\<close>,
  an \<open>ObjectId\<close> and a timestamp being given by their string forms.
\<close>

theorem serialize_doc_identifier_witness:
  "is_dict [(lit ''_id'', ObjectId (lit ''507f1f77bcf86cd799439011'')), (lit ''name'', PyStr (lit ''Ann'') :: (str, str, unit) pyval)]
   \<and> map_of (serialize_doc id id
        [(lit ''_id'', ObjectId (lit ''507f1f77bcf86cd799439011'')), (lit ''name'', PyStr (lit ''Ann'') :: (str, str, unit) pyval)])
        (lit ''id'') = Some (PyStr (lit ''507f1f77bcf86cd799439011''))
   \<and> lit ''_id'' \<notin> fst ` set (serialize_doc id id
        [(lit ''_id'', ObjectId (lit ''507f1f77bcf86cd799439011'')), (lit ''name'', PyStr (lit ''Ann'') :: (str, str, unit) pyval)])"
proof -
  let ?doc = "[(lit ''_id'', ObjectId (lit ''507f1f77bcf86cd799439011'')), (lit ''name'', PyStr (lit ''Ann'') :: (str, str, unit) pyval)]"
  have d: "is_dict ?doc" by (simp add: is_dict_def lit_def)
  have i: "map_of ?doc (lit ''_id'') = Some (ObjectId (lit ''507f1f77bcf86cd799439011''))" by simp
  from serialize_doc_identifier [OF d i, of id id] d show ?thesis by simp
qed

subsection \<open>Documents with nothing to convert\<close>

text \<open>
  C7: for every document with no key \<open>"_id"\<close> and no value that has \<open>isoformat\<close>,
  \<open>serialize_doc\<close> returns a mapping equal to the input (the same items in the same
  order).
\<close>

theorem serialize_doc_idempotent:
  assumes "lit ''_id'' \<notin> fst ` set doc" and "\<forall>(k, v) \<in> set doc. \<not> hasattr_isoformat v"
  shows "serialize_doc str_oid isoformat doc = doc"
proof -
  from assms(1) have "map_of doc (lit ''_id'') = None"
    by (simp add: map_of_eq_None_iff)
  then have "\<not> has_object_id doc" by (simp add: has_object_id_def)
  then have "serialize_doc str_oid isoformat doc = fold (convert_item isoformat) doc doc"
    by (rule serialize_doc_without_oid)
  also have "\<dots> = doc" by (rule fold_convert_unchanged [OF assms(2)])
  finally show ?thesis .
qed

text \<open>C7 at the document \<open>{"id": "507f1f77bcf86cd799439011", "name": "Ann", "slots": 3}\<close>.\<close>

theorem serialize_doc_idempotent_witness:
  "lit ''_id'' \<notin> fst ` set [(lit ''id'', PyStr (lit ''507f1f77bcf86cd799439011'')), (lit ''name'', PyStr (lit ''Ann'')), (lit ''slots'', PyInt 3 :: (str, str, unit) pyval)]
   \<and> filter hasattr_isoformat (map snd [(lit ''id'', PyStr (lit ''507f1f77bcf86cd799439011'')), (lit ''name'', PyStr (lit ''Ann'')), (lit ''slots'', PyInt 3 :: (str, str, unit) pyval)]) = []
   \<and> serialize_doc id id [(lit ''id'', PyStr (lit ''507f1f77bcf86cd799439011'')), (lit ''name'', PyStr (lit ''Ann'')), (lit ''slots'', PyInt 3 :: (str, str, unit) pyval)]
       = [(lit ''id'', PyStr (lit ''507f1f77bcf86cd799439011'')), (lit ''name'', PyStr (lit ''Ann'')), (lit ''slots'', PyInt 3)]"
proof -
  let ?doc = "[(lit ''id'', PyStr (lit ''507f1f77bcf86cd799439011'')), (lit ''name'', PyStr (lit ''Ann'')), (lit ''slots'', PyInt 3 :: (str, str, unit) pyval)]"
  have k: "lit ''_id'' \<notin> fst ` set ?doc" by (simp add: lit_def)
  have v: "\<forall>(k, v) \<in> set ?doc. \<not> hasattr_isoformat v" by (simp add: hasattr_isoformat_def)
  have f: "filter hasattr_isoformat (map snd ?doc) = []" by (simp add: hasattr_isoformat_def)
  from serialize_doc_idempotent [OF k v, of id id] k f show ?thesis by simp
qed

subsection \<open>Timestamps and the other fields\<close>

lemma lookup_with_oid:
  assumes "is_dict doc" and "map_of doc (lit ''_id'') = Some (ObjectId oid)"
  shows "map_of (serialize_doc str_oid isoformat doc) k =
     (if k = lit ''_id'' then None
      else if k = lit ''id'' then Some (PyStr (str_oid oid))
      else (case map_of doc k of
              Some (Datetime t) \<Rightarrow> Some (PyStr (isoformat t))
            | _ \<Rightarrow> map_of doc k))"
proof -
  let ?out = "AList.update (lit ''id'') (PyStr (str_oid oid)) (AList.delete (lit ''_id'') doc)"
  have eq: "serialize_doc str_oid isoformat doc = fold (convert_item isoformat) ?out ?out"
    by (rule serialize_doc_with_oid [OF assms(2)])
  have dist: "distinct (map fst ?out)"
    using is_dict_reinsert [OF assms(1)] by (simp add: is_dict_def)
  have out: "map_of ?out k =
     (if k = lit ''id'' then Some (PyStr (str_oid oid))
      else if k = lit ''_id'' then None else map_of doc k)"
    by (simp add: update_conv' delete_conv')
  have "map_of (fold (convert_item isoformat) ?out ?out) k =
     (case map_of ?out k of Some (Datetime t) \<Rightarrow> Some (PyStr (isoformat t)) | _ \<Rightarrow> map_of ?out k)"
    by (rule fold_convert_lookup [OF dist])
  then show ?thesis
    unfolding eq out using lit_id_neq by simp
qed

lemma lookup_without_oid:
  assumes "is_dict doc" and "\<not> has_object_id doc"
  shows "map_of (serialize_doc str_oid isoformat doc) k =
     (case map_of doc k of
        Some (Datetime t) \<Rightarrow> Some (PyStr (isoformat t))
      | _ \<Rightarrow> map_of doc k)"
proof -
  have "serialize_doc str_oid isoformat doc = fold (convert_item isoformat) doc doc"
    by (rule serialize_doc_without_oid [OF assms(2)])
  moreover from assms(1) have "distinct (map fst doc)" by (simp add: is_dict_def)
  ultimately show ?thesis by (simp add: fold_convert_lookup)
qed

lemma no_timestamp_lookup:
  assumes "\<forall>(k, v) \<in> set doc. \<not> hasattr_isoformat v"
  shows "(case map_of doc k of
            Some (Datetime t) \<Rightarrow> Some (PyStr (isoformat t))
          | _ \<Rightarrow> map_of doc k) = map_of doc k"
proof (cases "map_of doc k")
  case None
  then show ?thesis by simp
next
  case (Some v)
  then have "(k, v) \<in> set doc" by (rule map_of_SomeD)
  with assms have "\<not> hasattr_isoformat v" by auto
  with Some show ?thesis by (cases v) (simp_all add: hasattr_isoformat_def)
qed

text \<open>
  C4, amended: for every document, \<open>serialize_doc\<close> replaces every timestamp value by
  its \<open>isoformat()\<close> string, except a timestamp stored under the key \<open>"id"\<close> of a
  document whose \<open>"_id"\<close> is an \<open>ObjectId\<close> (that field is overwritten by the stringified
  identifier); and for every document with no timestamp-valued field, every field other
  than the identifier fields (\<open>"_id"\<close> and \<open>"id"\<close> of a document whose \<open>"_id"\<close> is an
  \<open>ObjectId\<close>) is equal in the output and in the input.
\<close>

theorem serialize_doc_timestamps:
  assumes "is_dict doc"
  shows "(\<forall>k t. map_of doc k = Some (Datetime t) \<and> \<not> (has_object_id doc \<and> k = lit ''id'')
            \<longrightarrow> map_of (serialize_doc str_oid isoformat doc) k = Some (PyStr (isoformat t)))
       \<and> ((\<forall>(k, v) \<in> set doc. \<not> hasattr_isoformat v)
            \<longrightarrow> (\<forall>k. \<not> (has_object_id doc \<and> (k = lit ''_id'' \<or> k = lit ''id''))
                   \<longrightarrow> map_of (serialize_doc str_oid isoformat doc) k = map_of doc k))"
proof (cases "has_object_id doc")
  case True
  then obtain oid where oid: "map_of doc (lit ''_id'') = Some (ObjectId oid)"
    by (auto simp: has_object_id_iff)
  note look = lookup_with_oid [OF assms oid, of str_oid isoformat]
  have first: "map_of (serialize_doc str_oid isoformat doc) k = Some (PyStr (isoformat t))"
    if "map_of doc k = Some (Datetime t)" and "k \<noteq> lit ''id''" for k t
  proof -
    from that(1) oid have "k \<noteq> lit ''_id''" by auto
    with that show ?thesis by (simp add: look)
  qed
  have second: "map_of (serialize_doc str_oid isoformat doc) k = map_of doc k"
    if "\<forall>(k, v) \<in> set doc. \<not> hasattr_isoformat v" and "k \<noteq> lit ''_id''" and "k \<noteq> lit ''id''" for k
    using that(2,3) by (simp add: look no_timestamp_lookup [OF that(1)])
  from True first second show ?thesis by blast
next
  case False
  note look = lookup_without_oid [OF assms False, of str_oid isoformat]
  have first: "map_of (serialize_doc str_oid isoformat doc) k = Some (PyStr (isoformat t))"
    if "map_of doc k = Some (Datetime t)" for k t
    using that by (simp add: look)
  have second: "map_of (serialize_doc str_oid isoformat doc) k = map_of doc k"
    if "\<forall>(k, v) \<in> set doc. \<not> hasattr_isoformat v" for k
    by (simp add: look no_timestamp_lookup [OF that])
  from False first second show ?thesis by blast
qed

text \<open>
  C4, as stated, at \<open>{"_id": ObjectId("507f1f77bcf86cd799439011"), "id": datetime(2024, 5, 1, 10)}\<close>:
  the value under \<open>"id"\<close> is a timestamp, and the output holds the identifier string
  there, not the timestamp's ISO string.
\<close>

theorem serialize_doc_timestamps_counterexample:
  "map_of [(lit ''_id'', ObjectId (lit ''507f1f77bcf86cd799439011'')),
           (lit ''id'', Datetime (lit ''2024-05-01T10:00:00'') :: (str, str, unit) pyval)] (lit ''id'')
     = Some (Datetime (lit ''2024-05-01T10:00:00''))
   \<and> map_of (serialize_doc id id
        [(lit ''_id'', ObjectId (lit ''507f1f77bcf86cd799439011'')),
         (lit ''id'', Datetime (lit ''2024-05-01T10:00:00'') :: (str, str, unit) pyval)]) (lit ''id'')
     = Some (PyStr (lit ''507f1f77bcf86cd799439011''))
   \<and> map_of (serialize_doc id id
        [(lit ''_id'', ObjectId (lit ''507f1f77bcf86cd799439011'')),
         (lit ''id'', Datetime (lit ''2024-05-01T10:00:00'') :: (str, str, unit) pyval)]) (lit ''id'')
     \<noteq> Some (PyStr (lit ''2024-05-01T10:00:00''))"
  by (simp add: serialize_doc_def convert_item_def lit_def Let_def)

text \<open>
  C4, amended, at a document with a timestamp under \<open>"created_at"\<close> and at a document
  without timestamps.
\<close>

theorem serialize_doc_timestamps_witness:
  "is_dict [(lit ''_id'', ObjectId (lit ''507f1f77bcf86cd799439011'')),
            (lit ''created_at'', Datetime (lit ''2024-05-01T10:00:00'') :: (str, str, unit) pyval)]
   \<and> map_of (serialize_doc id id
         [(lit ''_id'', ObjectId (lit ''507f1f77bcf86cd799439011'')),
          (lit ''created_at'', Datetime (lit ''2024-05-01T10:00:00'') :: (str, str, unit) pyval)]) (lit ''created_at'')
       = Some (PyStr (lit ''2024-05-01T10:00:00''))
   \<and> is_dict [(lit ''_id'', ObjectId (lit ''507f1f77bcf86cd799439011'')),
              (lit ''name'', PyStr (lit ''Ann'') :: (str, str, unit) pyval)]
   \<and> filter hasattr_isoformat (map snd [(lit ''_id'', ObjectId (lit ''507f1f77bcf86cd799439011'')),
              (lit ''name'', PyStr (lit ''Ann'') :: (str, str, unit) pyval)]) = []
   \<and> map_of (serialize_doc id id
         [(lit ''_id'', ObjectId (lit ''507f1f77bcf86cd799439011'')),
          (lit ''name'', PyStr (lit ''Ann'') :: (str, str, unit) pyval)]) (lit ''name'')
       = Some (PyStr (lit ''Ann''))"
proof -
  let ?d1 = "[(lit ''_id'', ObjectId (lit ''507f1f77bcf86cd799439011'')),
              (lit ''created_at'', Datetime (lit ''2024-05-01T10:00:00'') :: (str, str, unit) pyval)]"
  let ?d2 = "[(lit ''_id'', ObjectId (lit ''507f1f77bcf86cd799439011'')),
              (lit ''name'', PyStr (lit ''Ann'') :: (str, str, unit) pyval)]"
  have d1: "is_dict ?d1" and d2: "is_dict ?d2" by (simp_all add: is_dict_def lit_def)
  have k1: "map_of ?d1 (lit ''created_at'') = Some (Datetime (lit ''2024-05-01T10:00:00''))
            \<and> \<not> (has_object_id ?d1 \<and> lit ''created_at'' = lit ''id'')"
    by (simp add: lit_def)
  have n2: "\<forall>(k, v) \<in> set ?d2. \<not> hasattr_isoformat v" by (simp add: hasattr_isoformat_def)
  have f2: "filter hasattr_isoformat (map snd ?d2) = []" by (simp add: hasattr_isoformat_def)
  have k2: "\<not> (has_object_id ?d2 \<and> (lit ''name'' = lit ''_id'' \<or> lit ''name'' = lit ''id''))"
    by (simp add: lit_def)
  from serialize_doc_timestamps [OF d1, of id id] k1
  have r1: "map_of (serialize_doc id id ?d1) (lit ''created_at'') = Some (PyStr (lit ''2024-05-01T10:00:00''))"
    by (metis id_apply)
  from serialize_doc_timestamps [OF d2, of id id] n2 k2
  have "map_of (serialize_doc id id ?d2) (lit ''name'') = map_of ?d2 (lit ''name'')"
    by blast
  then have r2: "map_of (serialize_doc id id ?d2) (lit ''name'') = Some (PyStr (lit ''Ann''))"
    by (simp add: lit_def)
  from d1 r1 d2 f2 r2 show ?thesis by blast
qed

subsection \<open>The input is not written\<close>

lemma heap_convert_item_length:
  "length (heap_convert_item isoformat out kv h) = length h"
  by (cases kv; cases "snd kv") (simp_all add: heap_convert_item_def heap_setitem_def)

lemma heap_convert_item_other:
  "r \<noteq> out \<Longrightarrow> heap_convert_item isoformat out kv h ! r = h ! r"
  by (cases kv; cases "snd kv") (simp_all add: heap_convert_item_def heap_setitem_def)

lemma heap_convert_item_out:
  "out < length h \<Longrightarrow>
   heap_convert_item isoformat out kv h ! out = convert_item isoformat kv (h ! out)"
  by (cases kv; cases "snd kv")
    (simp_all add: heap_convert_item_def convert_item_def heap_setitem_def)

lemma fold_heap_convert_item:
  "out < length h \<Longrightarrow>
   length (fold (heap_convert_item isoformat out) its h) = length h
   \<and> (\<forall>r. r \<noteq> out \<longrightarrow> fold (heap_convert_item isoformat out) its h ! r = h ! r)
   \<and> fold (heap_convert_item isoformat out) its h ! out = fold (convert_item isoformat) its (h ! out)"
proof (induction its arbitrary: h)
  case Nil
  show ?case by simp
next
  case (Cons kv its)
  let ?h = "heap_convert_item isoformat out kv h"
  from Cons.prems have "out < length ?h" by (simp add: heap_convert_item_length)
  from Cons.IH [OF this] Cons.prems show ?case
    by (simp add: heap_convert_item_length heap_convert_item_other heap_convert_item_out)
qed

text \<open>
  C8: \<open>serialize_doc\<close> never mutates its input.  Run on a store \<open>h\<close> and a reference
  \<open>doc\<close> into it, it leaves the object at \<open>doc\<close> as it was, key for key and value for
  value, and every other object that existed (the old store is a prefix of the new one);
  the mapping it returns is a new object, at a reference that did not exist in \<open>h\<close>, and
  holds the normal form of the input.
\<close>

theorem serialize_doc_no_mutation:
  assumes "doc < length h"
  shows "case serialize_doc_heap str_oid isoformat doc h of
           (h', out) \<Rightarrow>
             h' ! doc = h ! doc
             \<and> out \<noteq> doc
             \<and> out = length h
             \<and> length h' = Suc (length h)
             \<and> take (length h) h' = h
             \<and> h' ! out = serialize_doc str_oid isoformat (h ! doc)"
proof -
  define d1 where "d1 =
     (case map_of (h ! doc) (lit ''_id'') of
        Some (ObjectId oid) \<Rightarrow>
          AList.update (lit ''id'') (PyStr (str_oid oid)) (AList.delete (lit ''_id'') (h ! doc))
      | _ \<Rightarrow> h ! doc)"
  define h1 where "h1 = h @ [d1]"
  define h2 where "h2 = fold (heap_convert_item isoformat (length h)) d1 h1"
  have run: "serialize_doc_heap str_oid isoformat doc h = (h2, length h)"
    by (simp add: serialize_doc_heap_def new_dict_def Let_def h2_def h1_def d1_def
        heap_setitem_def heap_pop_def split: option.splits pyval.splits)
  have len1: "length h < length h1" by (simp add: h1_def)
  have out1: "h1 ! length h = d1" by (simp add: h1_def)
  note inv = fold_heap_convert_item [OF len1, of isoformat d1, folded h2_def]
  from inv have len2: "length h2 = Suc (length h)" by (simp add: h1_def)
  have frame: "h2 ! r = h ! r" if "r < length h" for r
  proof -
    from that have "r \<noteq> length h" by simp
    with inv have "h2 ! r = h1 ! r" by blast
    also have "\<dots> = h ! r" using that by (simp add: h1_def nth_append)
    finally show ?thesis .
  qed
  have pre: "take (length h) h2 = h"
  proof (rule nth_equalityI)
    show "length (take (length h) h2) = length h" by (simp add: len2)
  next
    fix i assume "i < length (take (length h) h2)"
    then have "i < length h" by simp
    then show "take (length h) h2 ! i = h ! i" by (simp add: frame)
  qed
  from inv have "h2 ! length h = fold (convert_item isoformat) d1 (h1 ! length h)" by blast
  also have "\<dots> = serialize_doc str_oid isoformat (h ! doc)"
    by (simp add: out1 serialize_doc_def Let_def d1_def)
  finally have res: "h2 ! length h = serialize_doc str_oid isoformat (h ! doc)" .
  from assms have "length h \<noteq> doc" by simp
  with frame [OF assms] len2 pre res show ?thesis
    unfolding run by simp
qed

text \<open>C8 on a store holding one document.\<close>

theorem serialize_doc_no_mutation_witness:
  "(0::nat) < length [[(lit ''_id'', ObjectId (lit ''507f1f77bcf86cd799439011'')),
                       (lit ''created_at'', Datetime (lit ''2024-05-01T10:00:00'') :: (str, str, unit) pyval)]]
   \<and> fst (serialize_doc_heap id id 0
        [[(lit ''_id'', ObjectId (lit ''507f1f77bcf86cd799439011'')),
          (lit ''created_at'', Datetime (lit ''2024-05-01T10:00:00'') :: (str, str, unit) pyval)]]) ! 0
     = [(lit ''_id'', ObjectId (lit ''507f1f77bcf86cd799439011'')),
        (lit ''created_at'', Datetime (lit ''2024-05-01T10:00:00''))]
   \<and> snd (serialize_doc_heap id id 0
        [[(lit ''_id'', ObjectId (lit ''507f1f77bcf86cd799439011'')),
          (lit ''created_at'', Datetime (lit ''2024-05-01T10:00:00'') :: (str, str, unit) pyval)]]) = 1
   \<and> fst (serialize_doc_heap id id 0
        [[(lit ''_id'', ObjectId (lit ''507f1f77bcf86cd799439011'')),
          (lit ''created_at'', Datetime (lit ''2024-05-01T10:00:00'') :: (str, str, unit) pyval)]]) ! 1
     = [(lit ''created_at'', PyStr (lit ''2024-05-01T10:00:00'')),
        (lit ''id'', PyStr (lit ''507f1f77bcf86cd799439011''))]"
proof -
  let ?h = "[[(lit ''_id'', ObjectId (lit ''507f1f77bcf86cd799439011'')),
              (lit ''created_at'', Datetime (lit ''2024-05-01T10:00:00'') :: (str, str, unit) pyval)]]"
  have lt: "(0::nat) < length ?h" by simp
  have norm: "serialize_doc id id (?h ! 0) =
      [(lit ''created_at'', PyStr (lit ''2024-05-01T10:00:00'')),
       (lit ''id'', PyStr (lit ''507f1f77bcf86cd799439011''))]"
    by (simp add: serialize_doc_def convert_item_def lit_def Let_def)
  from serialize_doc_no_mutation [OF lt, of id id]
  have "fst (serialize_doc_heap id id 0 ?h) ! 0 = ?h ! 0
      \<and> snd (serialize_doc_heap id id 0 ?h) = length ?h
      \<and> fst (serialize_doc_heap id id 0 ?h) ! snd (serialize_doc_heap id id 0 ?h)
          = serialize_doc id id (?h ! 0)"
    by (auto simp: case_prod_beta)
  with norm lt show ?thesis by auto
qed

section \<open>Properties of the route handlers\<close>

subsection \<open>Gallery and appointments\<close>

lemma length_DEFAULT_GALLERY: "length DEFAULT_GALLERY = 4"
  by (simp add: DEFAULT_GALLERY_def)

lemma flags_differ: "SET \<noteq> NOT_SET"
  by (simp add: SET_def NOT_SET_def CHECK_MARK_def CROSS_MARK_def)

text \<open>
  C2: if listing \<open>"galleryimage"\<close> returns the empty list or raises a fault,
  \<open>get_gallery\<close> returns the built-in list \<open>DEFAULT_GALLERY\<close> itself, which has 4 items,
  with count 4 and source \<open>"default"\<close>; it returns normally (status 200), never an error.
\<close>

theorem get_gallery_default:
  assumes "get_documents (lit ''galleryimage'') = Inr [] \<or> (\<exists>e. get_documents (lit ''galleryimage'') = Inl e)"
  shows "get_gallery str_oid isoformat get_documents =
           Inr \<lparr>items = DEFAULT_GALLERY, count = 4, source = lit ''default''\<rparr>
       \<and> length (DEFAULT_GALLERY :: ('o, 't, 'x) dict list) = 4
       \<and> http_status (get_gallery str_oid isoformat get_documents) = 200"
proof -
  from assms
  have "get_gallery str_oid isoformat get_documents =
          Inr \<lparr>items = DEFAULT_GALLERY, count = 4, source = lit ''default''\<rparr>"
    by (auto simp: get_gallery_def length_DEFAULT_GALLERY)
  then show ?thesis by (simp add: http_status_def length_DEFAULT_GALLERY)
qed

text \<open>C2 at an empty collection and at a store that refuses the connection.\<close>

theorem get_gallery_default_witness:
  "get_gallery id id (\<lambda>name. Inr []) =
      Inr \<lparr>items = (DEFAULT_GALLERY :: (str, str, unit) dict list), count = 4, source = lit ''default''\<rparr>
   \<and> get_gallery id id (\<lambda>name. Inl (Exception (lit ''connection refused''))) =
      Inr \<lparr>items = (DEFAULT_GALLERY :: (str, str, unit) dict list), count = 4, source = lit ''default''\<rparr>"
proof -
  let ?empty = "\<lambda>name::str. Inr [] :: exn + (str, str, unit) dict list"
  let ?down = "\<lambda>name::str. Inl (Exception (lit ''connection refused'')) :: exn + (str, str, unit) dict list"
  have a: "?empty (lit ''galleryimage'') = Inr [] \<or> (\<exists>e. ?empty (lit ''galleryimage'') = Inl e)"
    by simp
  have b: "?down (lit ''galleryimage'') = Inr [] \<or> (\<exists>e. ?down (lit ''galleryimage'') = Inl e)"
    by simp
  from get_gallery_default [OF a, of id id] get_gallery_default [OF b, of id id]
  show ?thesis by blast
qed

text \<open>
  C3: if listing \<open>"galleryimage"\<close> returns a non-empty list of documents, \<open>get_gallery\<close>
  returns that list with \<open>serialize_doc\<close> applied to each element, the number of stored
  documents as count, and source \<open>"database"\<close>.
\<close>

theorem get_gallery_database:
  assumes "get_documents (lit ''galleryimage'') = Inr stored" and "stored \<noteq> []"
  shows "get_gallery str_oid isoformat get_documents =
           Inr \<lparr>items = map (serialize_doc str_oid isoformat) stored,
                 count = length stored,
                 source = lit ''database''\<rparr>"
  using assms by (simp add: get_gallery_def)

text \<open>C3 at a collection holding one image.\<close>

theorem get_gallery_database_witness:
  "get_gallery id id
      (\<lambda>name. Inr [[(lit ''_id'', ObjectId (lit ''507f1f77bcf86cd799439011'')),
                     (lit ''title'', PyStr (lit ''Harbour'') :: (str, str, unit) pyval)]])
    = Inr \<lparr>items = [[(lit ''title'', PyStr (lit ''Harbour'')),
                      (lit ''id'', PyStr (lit ''507f1f77bcf86cd799439011''))]],
            count = 1, source = lit ''database''\<rparr>"
proof -
  let ?stored = "[[(lit ''_id'', ObjectId (lit ''507f1f77bcf86cd799439011'')),
                   (lit ''title'', PyStr (lit ''Harbour'') :: (str, str, unit) pyval)]]"
  have a: "(\<lambda>name::str. Inr ?stored :: exn + (str, str, unit) dict list) (lit ''galleryimage'') = Inr ?stored"
    by simp
  have b: "?stored \<noteq> []" by simp
  from get_gallery_database [OF a b, of id id] show ?thesis
    by (simp add: serialize_doc_def convert_item_def lit_def Let_def)
qed

text \<open>
  C10: every response of \<open>get_gallery\<close> has a count equal to the length of its items, on
  the database branch and on both default branches.
\<close>

theorem get_gallery_count:
  "\<exists>r. get_gallery str_oid isoformat get_documents = Inr r \<and> count r = length (items r)"
  by (simp add: get_gallery_def Let_def split: sum.splits)

text \<open>
  C6: for a validated appointment, if the insert raises a fault \<open>e\<close> the handler raises
  \<open>HTTPException\<close> with status 500 and detail \<open>str(e)\<close>; if the insert returns an
  identifier, the handler returns a mapping with that identifier under \<open>"id"\<close> and the
  message string.
\<close>

theorem create_appointment_result:
  "(create_document (lit ''appointment'') appt = Inl e \<longrightarrow>
      create_appointment create_document appt = Inl (HTTPException 500 (py_str e))
      \<and> http_status (create_appointment create_document appt) = 500)
   \<and> (create_document (lit ''appointment'') appt = Inr inserted_id \<longrightarrow>
      create_appointment create_document appt =
        Inr \<lparr>id_field = inserted_id, message = lit ''Appointment request received''\<rparr>)"
  by (simp add: create_appointment_def http_status_def)

text \<open>C6 at a store that is not available and at a store that inserts.\<close>

theorem create_appointment_result_witness:
  "create_appointment (\<lambda>collection appt. Inl (Exception (lit ''Database not available''))) ()
     = Inl (HTTPException 500 (lit ''Database not available''))
   \<and> http_status (create_appointment (\<lambda>collection appt. Inl (Exception (lit ''Database not available''))) ()) = 500
   \<and> create_appointment (\<lambda>collection appt. Inr (lit ''507f1f77bcf86cd799439011'')) ()
     = Inr \<lparr>id_field = lit ''507f1f77bcf86cd799439011'', message = lit ''Appointment request received''\<rparr>"
  using create_appointment_result
      [of "\<lambda>collection appt. Inl (Exception (lit ''Database not available''))" "()"
          "Exception (lit ''Database not available'')"]
    create_appointment_result
      [of "\<lambda>collection appt. Inr (lit ''507f1f77bcf86cd799439011'')" "()" _
          "lit ''507f1f77bcf86cd799439011''"]
  by (simp add: http_status_def)

subsection \<open>Diagnostics\<close>

lemma test_database_Inr:
  "test_database db getenv =
     Inr ((connection_check db getenv
            \<lparr>backend = CHECK_MARK # lit '' Running'',
             database = CROSS_MARK # lit '' Not Available'',
             database_url = None,
             database_name = None,
             connection_status = lit ''Not Connected'',
             collections = []\<rparr>)
          \<lparr>database_url := Some (if truthy (getenv (lit ''DATABASE_URL'')) then SET else NOT_SET),
           database_name := Some (if truthy (getenv (lit ''DATABASE_NAME'')) then SET else NOT_SET)\<rparr>)"
  by (simp add: test_database_def Let_def)

lemma connection_check_listing_fault:
  "db_name d = Inr nm \<Longrightarrow> db_list_collection_names d = Inl e \<Longrightarrow>
   database (connection_check (Some d) getenv r) =
     WARNING_SIGN @ lit ''  Connected but Error: '' @ take 50 (py_str e)"
  by (simp add: connection_check_def list_collections_check_def Let_def)

lemma connection_check_name_fault:
  "db_name d = Inl e \<Longrightarrow>
   database (connection_check (Some d) getenv r) = CROSS_MARK # lit '' Error: '' @ take 50 (py_str e)"
  by (simp add: connection_check_def Let_def)

text \<open>
  C5: whatever the store does, \<open>test_database\<close> returns a status mapping (status 200)
  and raises nothing.  A fault of the collection listing is written into the field
  \<open>database\<close> as a fixed prefix followed by the message cut to its first 50 characters;
  a fault of the attribute access is written there likewise by the outer handler; in both
  cases the two environment checks still run and fill their fields.
\<close>

theorem test_database_contained:
  "\<exists>r. test_database db getenv = Inr r
      \<and> http_status (test_database db getenv) = 200
      \<and> (\<forall>d nm e. db = Some d \<and> db_name d = Inr nm \<and> db_list_collection_names d = Inl e \<longrightarrow>
            database r = WARNING_SIGN @ lit ''  Connected but Error: '' @ take 50 (py_str e)
            \<and> length (take 50 (py_str e)) \<le> 50
            \<and> database_url r = Some (if truthy (getenv (lit ''DATABASE_URL'')) then SET else NOT_SET)
            \<and> database_name r = Some (if truthy (getenv (lit ''DATABASE_NAME'')) then SET else NOT_SET))
      \<and> (\<forall>d e. db = Some d \<and> db_name d = Inl e \<longrightarrow>
            database r = CROSS_MARK # lit '' Error: '' @ take 50 (py_str e)
            \<and> length (take 50 (py_str e)) \<le> 50
            \<and> database_url r = Some (if truthy (getenv (lit ''DATABASE_URL'')) then SET else NOT_SET)
            \<and> database_name r = Some (if truthy (getenv (lit ''DATABASE_NAME'')) then SET else NOT_SET))"
  by (simp add: test_database_Inr http_status_def connection_check_listing_fault
      connection_check_name_fault)

text \<open>
  C5 at a store whose listing fails with a message of 83 characters, and at a store
  whose attribute access fails.
\<close>

theorem test_database_contained_witness:
  "map_sum id database
     (test_database
        (Some \<lparr>db_name = Inr (Some (lit ''drone'')),
               db_list_collection_names =
                 Inl (Exception (lit ''localhost:27017: [Errno 111] Connection refused, Timeout: 30s, Topology Description''))\<rparr>)
        Map.empty)
     = Inr (WARNING_SIGN @ lit ''  Connected but Error: '' @ lit ''localhost:27017: [Errno 111] Connection refused, T'')
   \<and> map_sum id database
     (test_database
        (Some \<lparr>db_name = Inl (Exception (lit ''not authorized'')),
               db_list_collection_names = Inr []\<rparr>)
        Map.empty)
     = Inr (CROSS_MARK # lit '' Error: '' @ lit ''not authorized'')"
proof -
  let ?d1 = "\<lparr>db_name = Inr (Some (lit ''drone'')),
               db_list_collection_names =
                 Inl (Exception (lit ''localhost:27017: [Errno 111] Connection refused, Timeout: 30s, Topology Description''))\<rparr>"
  let ?d2 = "\<lparr>db_name = Inl (Exception (lit ''not authorized'')),
               db_list_collection_names = Inr []\<rparr>"
  from test_database_contained [of "Some ?d1" Map.empty]
  obtain r1 where r1: "test_database (Some ?d1) Map.empty = Inr r1"
    and "database r1 = WARNING_SIGN @ lit ''  Connected but Error: ''
            @ take 50 (lit ''localhost:27017: [Errno 111] Connection refused, Timeout: 30s, Topology Description'')"
    by auto
  then have a: "map_sum id database (test_database (Some ?d1) Map.empty)
      = Inr (WARNING_SIGN @ lit ''  Connected but Error: '' @ lit ''localhost:27017: [Errno 111] Connection refused, T'')"
    by (simp add: lit_def)
  from test_database_contained [of "Some ?d2" Map.empty]
  obtain r2 where r2: "test_database (Some ?d2) Map.empty = Inr r2"
    and "database r2 = CROSS_MARK # lit '' Error: '' @ take 50 (lit ''not authorized'')"
    by auto
  then have b: "map_sum id database (test_database (Some ?d2) Map.empty)
      = Inr (CROSS_MARK # lit '' Error: '' @ lit ''not authorized'')"
    by (simp add: lit_def)
  from a b show ?thesis by blast
qed

text \<open>
  C9, as stated, at an environment in which \<open>DATABASE_URL\<close> is set to the empty string:
  the variable is set, and the field \<open>database_url\<close> is the "not set" flag, since the
  test is the truth value of \<open>os.getenv("DATABASE_URL")\<close>.
\<close>

theorem test_database_env_flags_counterexample:
  "(Map.empty(lit ''DATABASE_URL'' \<mapsto> [])) (lit ''DATABASE_URL'') = Some []
   \<and> map_sum id database_url (test_database None (Map.empty(lit ''DATABASE_URL'' \<mapsto> [])))
       = Inr (Some NOT_SET)
   \<and> NOT_SET \<noteq> SET"
  by (simp add: test_database_Inr truthy_def SET_def NOT_SET_def CHECK_MARK_def CROSS_MARK_def)

text \<open>
  C9, amended: in every response of \<open>test_database\<close> the fields \<open>database_url\<close> and
  \<open>database_name\<close> are the "set" flag or the "not set" flag, determined solely by whether
  \<open>DATABASE_URL\<close> and \<open>DATABASE_NAME\<close> are set to a non-empty value; what the store check
  assigned to these fields is overwritten.
\<close>

theorem test_database_env_flags:
  "\<exists>r. test_database db getenv = Inr r
      \<and> database_url r = Some (if truthy (getenv (lit ''DATABASE_URL'')) then SET else NOT_SET)
      \<and> database_name r = Some (if truthy (getenv (lit ''DATABASE_NAME'')) then SET else NOT_SET)
      \<and> SET \<noteq> NOT_SET"
  by (simp add: test_database_Inr flags_differ)

text \<open>
  C9, amended, at a store named \<open>drone\<close>: the store check puts the name into
  \<open>database_name\<close>, and the response holds the flag.
\<close>

theorem test_database_env_flags_witness:
  "database_name
     (connection_check
        (Some \<lparr>db_name = Inr (Some (lit ''drone'')), db_list_collection_names = Inr [lit ''appointment'']\<rparr>)
        (Map.empty(lit ''DATABASE_NAME'' \<mapsto> lit ''drone''))
        \<lparr>backend = [], database = [], database_url = None, database_name = None,
         connection_status = [], collections = []\<rparr>)
     = Some (lit ''drone'')
   \<and> map_sum id database_name
     (test_database
        (Some \<lparr>db_name = Inr (Some (lit ''drone'')), db_list_collection_names = Inr [lit ''appointment'']\<rparr>)
        (Map.empty(lit ''DATABASE_NAME'' \<mapsto> lit ''drone'')))
     = Inr (Some SET)
   \<and> map_sum id database_url
     (test_database
        (Some \<lparr>db_name = Inr (Some (lit ''drone'')), db_list_collection_names = Inr [lit ''appointment'']\<rparr>)
        (Map.empty(lit ''DATABASE_NAME'' \<mapsto> lit ''drone'')))
     = Inr (Some NOT_SET)"
proof -
  let ?db = "Some \<lparr>db_name = Inr (Some (lit ''drone'')), db_list_collection_names = Inr [lit ''appointment'']\<rparr>"
  let ?env = "Map.empty(lit ''DATABASE_NAME'' \<mapsto> lit ''drone'')"
  have before: "database_name
     (connection_check ?db ?env
        \<lparr>backend = [], database = [], database_url = None, database_name = None,
         connection_status = [], collections = []\<rparr>) = Some (lit ''drone'')"
    by (simp add: connection_check_def list_collections_check_def Let_def lit_def)
  from test_database_env_flags [of ?db ?env]
  obtain r where "test_database ?db ?env = Inr r"
    and "database_url r = Some (if truthy (?env (lit ''DATABASE_URL'')) then SET else NOT_SET)"
    and "database_name r = Some (if truthy (?env (lit ''DATABASE_NAME'')) then SET else NOT_SET)"
    by blast
  then have "map_sum id database_name (test_database ?db ?env) = Inr (Some SET)"
    and "map_sum id database_url (test_database ?db ?env) = Inr (Some NOT_SET)"
    by (simp_all add: truthy_def lit_def)
  with before show ?thesis by blast
qed

end
